theory Spec2Isabelle
  imports Main "HOL-Library.Sublist"
begin

section \<open>Strings as the JavaScript source uses them\<close>

text \<open>
  Strings are \<open>string\<close> (character lists).  \<open>includes_js s needle\<close> is
  \<^verbatim>\<open>s.includes(needle)\<close>: some suffix of \<open>s\<close> starts with \<open>needle\<close>.
  \<open>startsWith\<close> is \<open>prefix\<close> of the library.
\<close>

fun includes_js :: "string \<Rightarrow> string \<Rightarrow> bool" where
  "includes_js [] needle = (needle = [])"
| "includes_js (c # cs) needle = (prefix needle (c # cs) \<or> includes_js cs needle)"

text \<open>
  \<^verbatim>\<open>toLowerCase()\<close> on strings of ASCII characters: the letters \<open>A\<close> to \<open>Z\<close> are
  lowered, every other character is kept.  It stands for the runtime's mapping only in
  \<open>isRetryableError\<close>, which searches the lower-cased message for two phrases of ASCII
  letters and spaces: lower-casing a character outside ASCII never yields an occurrence
  of either phrase (only U+0130 yields a letter of them, an \<open>i\<close> followed by a combining
  dot above).  Where the source compares whole lower-cased strings (\<open>getUseModel\<close>),
  the runtime's mapping is a parameter instead; on strings of ASCII characters it is
  this function.
\<close>

definition lower_char :: "char \<Rightarrow> char" where
  "lower_char c =
     (case map_of (zip ''ABCDEFGHIJKLMNOPQRSTUVWXYZ'' ''abcdefghijklmnopqrstuvwxyz'') c of
        None \<Rightarrow> c
      | Some d \<Rightarrow> d)"

definition toLowerCase :: "string \<Rightarrow> string" where
  "toLowerCase s = map lower_char s"

text \<open>
  \<open>breakOn needle s\<close> cuts \<open>s\<close> at the first occurrence of \<open>needle\<close>: the part before
  it and the part after it, or \<open>None\<close> when \<open>needle\<close> does not occur.
\<close>

fun breakOn :: "string \<Rightarrow> string \<Rightarrow> (string \<times> string) option" where
  "breakOn needle [] = (if needle = [] then Some ([], []) else None)"
| "breakOn needle (c # cs) =
     (if prefix needle (c # cs) then Some ([], drop (length needle) (c # cs))
      else (case breakOn needle cs of
              None \<Rightarrow> None
            | Some (before, after) \<Rightarrow> Some (c # before, after)))"

text \<open>\<^verbatim>\<open>s.replace(pattern, replacement)\<close> with a string pattern: the first occurrence only.\<close>

definition replaceFirst :: "string \<Rightarrow> string \<Rightarrow> string \<Rightarrow> string" where
  "replaceFirst pattern replacement s =
     (case breakOn pattern s of
        None \<Rightarrow> s
      | Some (before, after) \<Rightarrow> before @ replacement @ after)"

lemma breakOn_shorter:
  "breakOn sep s = Some (before, after) \<Longrightarrow> sep \<noteq> [] \<Longrightarrow> length after < length s"
proof (induction s arbitrary: before)
  case Nil
  then show ?case by simp
next
  case (Cons c cs)
  show ?case
  proof (cases "prefix sep (c # cs)")
    case True
    with Cons.prems show ?thesis by auto
  next
    case False
    with Cons.prems obtain b where "breakOn sep cs = Some (b, after)"
      by (auto split: option.splits)
    with Cons.IH Cons.prems(2) show ?thesis by fastforce
  qed
qed

text \<open>\<^verbatim>\<open>s.split(sep)\<close>: the pieces between the occurrences of \<open>sep\<close>, read left to right.\<close>

function split_js :: "string \<Rightarrow> string \<Rightarrow> string list" where
  "split_js sep s =
     (if sep = [] then map (\<lambda>c. [c]) s
      else (case breakOn sep s of
              None \<Rightarrow> [s]
            | Some (before, after) \<Rightarrow> before # split_js sep after))"
  by pat_completeness auto
termination
  by (relation "measure (\<lambda>(sep, s). length s)") (auto dest: breakOn_shorter)

declare split_js.simps [simp del]

text \<open>\<^verbatim>\<open>xs[i]\<close>: \<^verbatim>\<open>undefined\<close> (here \<open>None\<close>) past the end.\<close>

definition nth_js :: "'a list \<Rightarrow> nat \<Rightarrow> 'a option" where
  "nth_js xs i = (if i < length xs then Some (xs ! i) else None)"

section \<open>The failover manager (class \<open>FailoverManager\<close>)\<close>

text \<open>
  \<^verbatim>\<open>interface FailoverConfig\<close>.  \<open>currentIndex\<close> and \<open>failureCount\<close> start at 0 and
  are only incremented, reduced modulo a length or reset to 0, so they are naturals;
  \<open>lastFailureTime\<close> is a \<^verbatim>\<open>Date.now()\<close> reading in milliseconds (or 0), an integer,
  and differences of two readings may be negative.
\<close>

record FailoverConfig =
  providers :: "string list"
  currentIndex :: nat
  lastFailureTime :: int
  failureCount :: nat

text \<open>The private field \<^verbatim>\<open>failoverConfigs: Map<string, FailoverConfig>\<close>.\<close>

type_synonym failoverConfigs = "string \<rightharpoonup> FailoverConfig"

text \<open>
  The exceptions of the routing code: \<^verbatim>\<open>'No providers available'\<close> of
  \<open>getNextProvider\<close>; \<^verbatim>\<open>'No router configuration provided'\<close> and
  \<^verbatim>\<open>'Empty provider array'\<close> of \<open>getModelFromConfig\<close>; the \<open>TypeError\<close> of a method
  call on a value that does not have the method; and an exception of an external
  collaborator (the tokenizer, the file system), with its message.
\<close>

datatype error =
    NoProvidersAvailable
  | NoRouterConfiguration
  | EmptyProviderArray
  | TypeError
  | External string

definition FAILURE_COOLDOWN_MS :: int where
  "FAILURE_COOLDOWN_MS = 30000"

definition MAX_FAILURES :: nat where
  "MAX_FAILURES = 3"

text \<open>
  \<^verbatim>\<open>const configKey = sessionId ? `session_${sessionId}` : 'global'\<close>: an absent and an
  empty session id are both falsy.
\<close>

definition configKey :: "string option \<Rightarrow> string" where
  "configKey sessionId =
     (case sessionId of
        None \<Rightarrow> ''global''
      | Some s \<Rightarrow> if s = [] then ''global'' else ''session_'' @ s)"

text \<open>\<^verbatim>\<open>getAvailableProviders(config)\<close>, with the reading of \<^verbatim>\<open>Date.now()\<close> as \<open>now\<close>.\<close>

definition getAvailableProviders :: "int \<Rightarrow> FailoverConfig \<Rightarrow> string list" where
  "getAvailableProviders now config =
     filter (\<lambda>provider.
        if failureCount config = 0 \<or> now - lastFailureTime config > FAILURE_COOLDOWN_MS
        then True
        else failureCount config < MAX_FAILURES)
       (providers config)"

text \<open>\<^verbatim>\<open>resetFailoverConfig(sessionId)\<close>: the key is computed from the argument again.\<close>

definition resetFailoverConfig :: "string option \<Rightarrow> failoverConfigs \<Rightarrow> failoverConfigs" where
  "resetFailoverConfig sessionId store = store((configKey sessionId) := None)"

text \<open>
  \<^verbatim>\<open>getNextProvider(providers, sessionId)\<close>.  The result is the returned provider or the
  thrown error, with the store after the call.  A new record holds a copy of the list
  (\<^verbatim>\<open>[...providers]\<close>).  In the branch with no available provider the source calls
  \<^verbatim>\<open>this.resetFailoverConfig(configKey)\<close>: the argument is the key, not the session id.
\<close>

definition getNextProvider ::
  "int \<Rightarrow> string list \<Rightarrow> string option \<Rightarrow> failoverConfigs \<Rightarrow> (error + string) \<times> failoverConfigs"
where
  "getNextProvider now provs sessionId store =
     (if provs = [] then (Inl NoProvidersAvailable, store)
      else if length provs = 1 then (Inr (provs ! 0), store)
      else
        let key = configKey sessionId;
            fresh = \<lparr>providers = provs, currentIndex = 0, lastFailureTime = 0, failureCount = 0\<rparr>;
            config = (case store key of None \<Rightarrow> fresh | Some c \<Rightarrow> c);
            store1 = (case store key of None \<Rightarrow> store(key \<mapsto> fresh) | Some c \<Rightarrow> store);
            availableProviders = getAvailableProviders now config
        in if length availableProviders = 0
           then (Inr (provs ! 0), resetFailoverConfig (Some key) store1)
           else
             let nextIndex = currentIndex config mod length availableProviders;
                 selectedProvider = availableProviders ! nextIndex
             in (Inr selectedProvider,
                 store1(key \<mapsto>
                   config\<lparr>currentIndex := (currentIndex config + 1) mod length availableProviders\<rparr>)))"

text \<open>
  The error descriptor \<^verbatim>\<open>error?: any\<close> as \<open>isRetryableError\<close> reads it: \<open>None\<close> is an
  absent (falsy) error; a field that is absent is \<open>None\<close>.  \<open>err_response_status\<close> is
  \<^verbatim>\<open>error.response?.status\<close>.
\<close>

record error_info =
  err_status :: "int option"
  err_response_status :: "int option"
  err_code :: "string option"
  err_message :: "string option"

definition retryableStatusCodes :: "int list" where
  "retryableStatusCodes = [429, 500, 502, 503, 504, 408, 524]"

text \<open>\<^verbatim>\<open>x && retryableStatusCodes.includes(x)\<close>: the status 0 is falsy.\<close>

definition statusRetryable :: "int option \<Rightarrow> bool" where
  "statusRetryable st =
     (case st of None \<Rightarrow> False | Some s \<Rightarrow> s \<noteq> 0 \<and> List.member retryableStatusCodes s)"

text \<open>\<^verbatim>\<open>error.message?.includes(needle)\<close> and \<^verbatim>\<open>error.message?.toLowerCase().includes(needle)\<close>.\<close>

definition messageIncludes :: "string option \<Rightarrow> string \<Rightarrow> bool" where
  "messageIncludes msg needle = (case msg of None \<Rightarrow> False | Some m \<Rightarrow> includes_js m needle)"

definition messageLowerIncludes :: "string option \<Rightarrow> string \<Rightarrow> bool" where
  "messageLowerIncludes msg needle =
     (case msg of None \<Rightarrow> False | Some m \<Rightarrow> includes_js (toLowerCase m) needle)"

definition isRetryableError :: "error_info option \<Rightarrow> bool" where
  "isRetryableError error =
     (case error of
        None \<Rightarrow> False
      | Some e \<Rightarrow>
          if statusRetryable (err_status e) then True
          else if statusRetryable (err_response_status e) then True
          else if err_code e = Some ''ECONNABORTED'' \<or> err_code e = Some ''ETIMEDOUT''
                  \<or> messageIncludes (err_message e) ''timeout'' then True
          else if err_code e = Some ''ENOTFOUND'' \<or> err_code e = Some ''ECONNREFUSED''
                  \<or> err_code e = Some ''ECONNRESET'' then True
          else if messageLowerIncludes (err_message e) ''rate limit''
                  \<or> messageLowerIncludes (err_message e) ''too many requests'' then True
          else False)"

text \<open>
  \<^verbatim>\<open>recordFailure(provider, sessionId, error)\<close> at time \<open>now\<close>.  The two
  \<^verbatim>\<open>console.warn\<close> lines write to the console only and are not part of the store.
\<close>

definition recordFailure ::
  "int \<Rightarrow> string \<Rightarrow> string option \<Rightarrow> error_info option \<Rightarrow> failoverConfigs \<Rightarrow> failoverConfigs"
where
  "recordFailure now provider sessionId error store =
     (case store (configKey sessionId) of
        None \<Rightarrow> store
      | Some config \<Rightarrow>
          if isRetryableError error
          then store(configKey sessionId \<mapsto>
                 config\<lparr>failureCount := failureCount config + 1, lastFailureTime := now\<rparr>)
          else store)"

definition recordSuccess :: "string \<Rightarrow> string option \<Rightarrow> failoverConfigs \<Rightarrow> failoverConfigs" where
  "recordSuccess provider sessionId store =
     (case store (configKey sessionId) of
        None \<Rightarrow> store
      | Some config \<Rightarrow>
          store(configKey sessionId \<mapsto> config\<lparr>failureCount := 0, lastFailureTime := 0\<rparr>))"

text \<open>
  Sequential calls of \<open>getNextProvider\<close> with the same list and session id, one per
  clock reading, each on the store the call before left: the list of their results.
\<close>

fun selectRepeatedly ::
  "int list \<Rightarrow> string list \<Rightarrow> string option \<Rightarrow> failoverConfigs \<Rightarrow> (error + string) list"
where
  "selectRepeatedly [] provs sessionId store = []"
| "selectRepeatedly (now # nows) provs sessionId store =
     (case getNextProvider now provs sessionId store of
        (r, store') \<Rightarrow> r # selectRepeatedly nows provs sessionId store')"

section \<open>The model selection policy and the router's try statement (\<open>router.ts\<close>)\<close>

text \<open>
  A router configuration value, \<^verbatim>\<open>string | string[] | undefined\<close>; the request's
  \<^verbatim>\<open>body.model\<close> holds one too after the router's last fallback.
\<close>

datatype rvalue = Undefined | Str string | Arr "string list"

text \<open>JavaScript truthiness: \<^verbatim>\<open>undefined\<close> and the empty string are falsy, every array is truthy.\<close>

fun truthy :: "rvalue \<Rightarrow> bool" where
  "truthy Undefined = False"
| "truthy (Str s) = (s \<noteq> [])"
| "truthy (Arr xs) = True"

text \<open>
  \<^verbatim>\<open>getModelFromConfig(routerConfig, sessionId)\<close>.  Its last \<^verbatim>\<open>throw\<close> (a value that is
  neither a string nor an array) has no input of this type.
\<close>

fun getModelFromConfig ::
  "int \<Rightarrow> rvalue \<Rightarrow> string option \<Rightarrow> failoverConfigs \<Rightarrow> (error + string) \<times> failoverConfigs"
where
  "getModelFromConfig now Undefined sessionId store = (Inl NoRouterConfiguration, store)"
| "getModelFromConfig now (Str s) sessionId store =
     (if s = [] then (Inl NoRouterConfiguration, store) else (Inr s, store))"
| "getModelFromConfig now (Arr routerConfig) sessionId store =
     (if length routerConfig = 0 then (Inl EmptyProviderArray, store)
      else getNextProvider now routerConfig sessionId store)"

text \<open>A provider descriptor of \<^verbatim>\<open>config.Providers\<close>: its name and its optional model list.\<close>

record provider_cfg =
  name :: string
  models :: "string list option"

text \<open>\<^verbatim>\<open>config.Router\<close>; \<open>default_route\<close> is its key \<^verbatim>\<open>default\<close>.\<close>

record router_cfg =
  default_route :: rvalue
  longContext :: rvalue
  background :: rvalue
  think :: rvalue
  webSearch :: rvalue
  longContextThreshold :: "int option"

record config =
  Providers :: "provider_cfg list"
  Router :: router_cfg
  CUSTOM_ROUTER_PATH :: "string option"

text \<open>
  \<^verbatim>\<open>req.body.system\<close>: absent (or \<^verbatim>\<open>null\<close>), a string, or an array of segments, of which
  \<open>getUseModel\<close> reads the \<^verbatim>\<open>text\<close> field only (\<open>None\<close> when the segment has none).
\<close>

datatype system_prompt = SysUndefined | SysString string | SysArray "string option list"

text \<open>
  The request as the \<^verbatim>\<open>try\<close> statement of \<open>router\<close> reads and writes it; \<open>sessionId\<close> is
  \<^verbatim>\<open>req.sessionId\<close> as the statements before the \<^verbatim>\<open>try\<close> left it.  \<open>body_tools\<close> is \<open>None\<close> when
  \<^verbatim>\<open>req.body.tools\<close> is not an array, and holds each tool's optional \<^verbatim>\<open>type\<close> otherwise;
  \<open>body_thinking\<close> is the truthiness of \<^verbatim>\<open>req.body.thinking\<close>.
\<close>

record request =
  body_model :: rvalue
  body_system :: system_prompt
  body_thinking :: bool
  body_tools :: "string option list option"
  sessionId :: "string option"
  selectedModel :: "string option"

text \<open>\<^verbatim>\<open>Usage\<close> of the session usage cache: the field the router reads.\<close>

record usage =
  input_tokens :: int

text \<open>
  The outcome of loading and calling the custom router: the value it returns (\<open>None\<close>
  when falsy), an exception that is an object or a string, or a thrown \<^verbatim>\<open>null\<close> or
  \<^verbatim>\<open>undefined\<close>, on which the \<^verbatim>\<open>e.message\<close> of the inner \<^verbatim>\<open>catch\<close> throws a \<open>TypeError\<close>.
\<close>

datatype custom_outcome =
    CustomReturns "string option"
  | CustomThrows string
  | CustomThrowsNullish

text \<open>
  What the \<^verbatim>\<open>try\<close> statement of \<open>router\<close> gets from outside the two source files: the
  clock; the result of \<^verbatim>\<open>calculateTokenCount\<close> (the tokenizer is external; its
  exceptions are objects or strings); the outcome of the custom router; the session
  usage cache's entry; and \<^verbatim>\<open>String.prototype.toLowerCase\<close>, the case mapping of the
  JavaScript runtime, as \<open>env_toLowerCase\<close>.
\<close>

record environment =
  env_now :: int
  env_tokenCount :: "error + int"
  env_customRouter :: custom_outcome
  env_lastUsage :: "usage option"
  env_toLowerCase :: "string \<Rightarrow> string"

text \<open>
  Lines 99 to 109 of \<open>getUseModel\<close>, for a model string that holds a comma: the
  configured name, lower-cased, is compared with the requested provider as written,
  and a configured model, lower-cased, with the requested model as written.  \<open>lower\<close> is
  the runtime's \<^verbatim>\<open>toLowerCase\<close>.
\<close>

definition resolveExplicit :: "(string \<Rightarrow> string) \<Rightarrow> config \<Rightarrow> string \<Rightarrow> string" where
  "resolveExplicit lower config requested =
     (let parts = split_js '','' requested;
          provider = nth_js parts 0;
          model = nth_js parts 1;
          finalProvider = find (\<lambda>p. Some (lower (name p)) = provider) (Providers config);
          finalModel =
            (case finalProvider of
               None \<Rightarrow> None
             | Some p \<Rightarrow>
                 (case models p of
                    None \<Rightarrow> None
                  | Some ms \<Rightarrow> find (\<lambda>m. Some (lower m) = model) ms))
      in case finalProvider of
           None \<Rightarrow> requested
         | Some p \<Rightarrow>
             (case finalModel of
                None \<Rightarrow> requested
              | Some m \<Rightarrow> if m = [] then requested else name p @ '','' @ m))"

text \<open>
  The regular expression \<^verbatim>\<open>/<CCR-SUBAGENT-MODEL>(.*?)<\/CCR-SUBAGENT-MODEL>/s\<close>: the
  leftmost opening tag that a closing tag follows, and the shortest text between them.
\<close>

fun matchSubagent :: "string \<Rightarrow> string option" where
  "matchSubagent [] = None"
| "matchSubagent (c # cs) =
     (if prefix ''<CCR-SUBAGENT-MODEL>'' (c # cs)
      then (case breakOn ''</CCR-SUBAGENT-MODEL>'' (drop (length ''<CCR-SUBAGENT-MODEL>'') (c # cs)) of
              Some (model, rest) \<Rightarrow> Some model
            | None \<Rightarrow> matchSubagent cs)
      else matchSubagent cs)"

text \<open>
  The sub-agent marker of \<open>getUseModel\<close>: the model named in the second system segment,
  and the request with the tag removed from that segment.
\<close>

definition subagentModel :: "request \<Rightarrow> (string \<times> request) option" where
  "subagentModel req =
     (case body_system req of
        SysArray segs \<Rightarrow>
          (if length segs > 1
           then (case segs ! 1 of
                   None \<Rightarrow> None
                 | Some txt \<Rightarrow>
                     if prefix ''<CCR-SUBAGENT-MODEL>'' txt
                     then (case matchSubagent txt of
                             None \<Rightarrow> None
                           | Some model \<Rightarrow>
                               Some (model,
                                 req\<lparr>body_system := SysArray (segs[1 := Some (replaceFirst
                                   (''<CCR-SUBAGENT-MODEL>'' @ model @ ''</CCR-SUBAGENT-MODEL>'') [] txt)])\<rparr>))
                     else None)
           else None)
      | _ \<Rightarrow> None)"

definition resolveFor ::
  "int \<Rightarrow> rvalue \<Rightarrow> request \<Rightarrow> failoverConfigs \<Rightarrow> (error + string) \<times> request \<times> failoverConfigs"
where
  "resolveFor now routerConfig req store =
     (case getModelFromConfig now routerConfig (sessionId req) store of
        (r, store') \<Rightarrow> (r, req, store'))"

text \<open>
  Lines 112 to 163 of \<open>getUseModel\<close>, the rules after the explicit override.  On a
  \<^verbatim>\<open>body.model\<close> that is an array \<^verbatim>\<open>req.body.model?.startsWith\<close> is not a function.
\<close>

definition heuristicChain ::
  "int \<Rightarrow> request \<Rightarrow> int \<Rightarrow> config \<Rightarrow> usage option \<Rightarrow> failoverConfigs
     \<Rightarrow> (error + string) \<times> request \<times> failoverConfigs"
where
  "heuristicChain now req tokenCount config lastUsage store =
     (let threshold =
            (case longContextThreshold (Router config) of
               None \<Rightarrow> 60000
             | Some t \<Rightarrow> if t = 0 then 60000 else t);
          lastUsageThreshold =
            (case lastUsage of
               None \<Rightarrow> False
             | Some u \<Rightarrow> input_tokens u > threshold \<and> tokenCount > 20000);
          tokenCountThreshold = (tokenCount > threshold)
      in if (lastUsageThreshold \<or> tokenCountThreshold) \<and> truthy (longContext (Router config))
         then resolveFor now (longContext (Router config)) req store
         else (case subagentModel req of
                 Some (model, req') \<Rightarrow> (Inr model, req', store)
               | None \<Rightarrow>
                   (case body_model req of
                      Arr xs \<Rightarrow> (Inl TypeError, req, store)
                    | Undefined \<Rightarrow>
                        if body_thinking req \<and> truthy (think (Router config))
                        then resolveFor now (think (Router config)) req store
                        else if (case body_tools req of
                                   None \<Rightarrow> False
                                 | Some tools \<Rightarrow>
                                     list_ex (\<lambda>ty. case ty of None \<Rightarrow> False
                                                   | Some t \<Rightarrow> prefix ''web_search'' t) tools)
                                \<and> truthy (webSearch (Router config))
                        then resolveFor now (webSearch (Router config)) req store
                        else resolveFor now (default_route (Router config)) req store
                    | Str m \<Rightarrow>
                        if prefix ''claude-3-5-haiku'' m \<and> truthy (background (Router config))
                        then resolveFor now (background (Router config)) req store
                        else if body_thinking req \<and> truthy (think (Router config))
                        then resolveFor now (think (Router config)) req store
                        else if (case body_tools req of
                                   None \<Rightarrow> False
                                 | Some tools \<Rightarrow>
                                     list_ex (\<lambda>ty. case ty of None \<Rightarrow> False
                                                   | Some t \<Rightarrow> prefix ''web_search'' t) tools)
                                \<and> truthy (webSearch (Router config))
                        then resolveFor now (webSearch (Router config)) req store
                        else resolveFor now (default_route (Router config)) req store)))"

text \<open>
  \<open>getUseModel\<close>, with the clock as \<open>now\<close> and the runtime's \<^verbatim>\<open>toLowerCase\<close> as \<open>lower\<close>.
  \<^verbatim>\<open>req.body.model.includes(",")\<close> throws a \<open>TypeError\<close> on an absent model; on an array
  it is the array's \<^verbatim>\<open>includes\<close>, and \<^verbatim>\<open>split\<close> is then not a function.
\<close>

definition getUseModel ::
  "(string \<Rightarrow> string) \<Rightarrow> int \<Rightarrow> request \<Rightarrow> int \<Rightarrow> config \<Rightarrow> usage option \<Rightarrow> failoverConfigs
     \<Rightarrow> (error + string) \<times> request \<times> failoverConfigs"
where
  "getUseModel lower now req tokenCount config lastUsage store =
     (case body_model req of
        Undefined \<Rightarrow> (Inl TypeError, req, store)
      | Str m \<Rightarrow>
          if includes_js m '','' then (Inr (resolveExplicit lower config m), req, store)
          else heuristicChain now req tokenCount config lastUsage store
      | Arr xs \<Rightarrow>
          if List.member xs '','' then (Inl TypeError, req, store)
          else heuristicChain now req tokenCount config lastUsage store)"

text \<open>
  The body of the \<^verbatim>\<open>try\<close> of \<open>router\<close> up to the value of \<open>model\<close>: the token count, the
  custom router when one is configured (its exceptions are caught and logged), and
  \<open>getUseModel\<close> when there is no model yet.  The log lines and the field
  \<^verbatim>\<open>req.tokenCount\<close>, which only the custom router reads, are left out.
\<close>

definition routerTry ::
  "environment \<Rightarrow> config \<Rightarrow> request \<Rightarrow> failoverConfigs
     \<Rightarrow> (error + string) \<times> request \<times> failoverConfigs"
where
  "routerTry env config req store =
     (case env_tokenCount env of
        Inl e \<Rightarrow> (Inl e, req, store)
      | Inr tokenCount \<Rightarrow>
          let custom =
                (case CUSTOM_ROUTER_PATH config of
                   None \<Rightarrow> CustomReturns None
                 | Some path \<Rightarrow> if path = [] then CustomReturns None else env_customRouter env)
          in case custom of
               CustomThrowsNullish \<Rightarrow> (Inl TypeError, req, store)
             | CustomThrows msg \<Rightarrow>
                 getUseModel (env_toLowerCase env) (env_now env) req tokenCount config
                   (env_lastUsage env) store
             | CustomReturns None \<Rightarrow>
                 getUseModel (env_toLowerCase env) (env_now env) req tokenCount config
                   (env_lastUsage env) store
             | CustomReturns (Some m) \<Rightarrow>
                 if m = []
                 then getUseModel (env_toLowerCase env) (env_now env) req tokenCount config
                        (env_lastUsage env) store
                 else (Inr m, req, store))"

text \<open>
  The \<^verbatim>\<open>catch\<close> of \<open>router\<close>, with its inner \<^verbatim>\<open>try\<close>: the default configuration resolved
  directly, and when that throws, the first element of a non-empty default list, else
  the default value itself.  The result is the value assigned to \<^verbatim>\<open>req.body.model\<close>
  with the store, or the exception that leaves the \<^verbatim>\<open>catch\<close>.
\<close>

definition routerCatch ::
  "int \<Rightarrow> config \<Rightarrow> request \<Rightarrow> failoverConfigs \<Rightarrow> error + rvalue \<times> failoverConfigs"
where
  "routerCatch now config req store =
     (case getModelFromConfig now (default_route (Router config)) (sessionId req) store of
        (Inr m, store') \<Rightarrow> Inr (Str m, store')
      | (Inl fallbackError, store') \<Rightarrow>
          (case default_route (Router config) of
             Arr (x # xs) \<Rightarrow> Inr (Str x, store')
           | d \<Rightarrow> Inr (d, store')))"

text \<open>
  Lines 182 to 223 of \<open>router\<close>, its \<^verbatim>\<open>try\<close> statement: the request and the store after
  it, or the exception that leaves it.  The statements of \<open>router\<close> before the \<^verbatim>\<open>try\<close>
  (the session id read from \<^verbatim>\<open>metadata.user_id\<close>, the usage cache lookup and the prompt
  rewrite) are not part of it: \<open>req\<close> is the request as they leave it.
\<close>

definition routerTryCatch ::
  "environment \<Rightarrow> config \<Rightarrow> request \<Rightarrow> failoverConfigs \<Rightarrow> error + request \<times> failoverConfigs"
where
  "routerTryCatch env config req store0 =
     (case routerTry env config req store0 of
        (Inr model, req', store) \<Rightarrow>
          Inr (req'\<lparr>body_model := Str model, selectedModel := Some model\<rparr>, store)
      | (Inl error, req', store) \<Rightarrow>
          (case routerCatch (env_now env) config req' store of
             Inl e \<Rightarrow> Inl e
           | Inr (model, store') \<Rightarrow> Inr (req'\<lparr>body_model := model\<rparr>, store')))"

section \<open>Properties of the failover manager\<close>

text \<open>A record without failures has no unavailable candidate.\<close>

lemma getAvailableProviders_no_failures:
  "failureCount config = 0 \<Longrightarrow> getAvailableProviders now config = providers config"
  by (simp add: getAvailableProviders_def)

text \<open>One call on a record without failures, and the first call on a scope without a record.\<close>

lemma getNextProvider_healthy:
  assumes "2 \<le> length ps" "i < length ps"
    and "store (configKey sid) =
           Some \<lparr>providers = ps, currentIndex = i, lastFailureTime = t, failureCount = 0\<rparr>"
  shows "getNextProvider now ps sid store =
     (Inr (ps ! i),
      store(configKey sid \<mapsto> \<lparr>providers = ps, currentIndex = Suc i mod length ps,
        lastFailureTime = t, failureCount = 0\<rparr>))"
  using assms by (auto simp: getNextProvider_def getAvailableProviders_def Let_def)

lemma getNextProvider_first:
  assumes "2 \<le> length ps" "store (configKey sid) = None"
  shows "getNextProvider now ps sid store =
     (Inr (ps ! 0),
      store(configKey sid \<mapsto> \<lparr>providers = ps, currentIndex = Suc 0 mod length ps,
        lastFailureTime = 0, failureCount = 0\<rparr>))"
  using assms by (auto simp: getNextProvider_def getAvailableProviders_def Let_def)

lemma selectRepeatedly_healthy:
  assumes "2 \<le> length ps" "i < length ps"
    and "store (configKey sid) =
           Some \<lparr>providers = ps, currentIndex = i, lastFailureTime = t, failureCount = 0\<rparr>"
  shows "selectRepeatedly nows ps sid store =
     map (\<lambda>k. Inr (ps ! ((i + k) mod length ps))) [0..<length nows]"
  using assms
proof (induction nows arbitrary: i store)
  case Nil
  then show ?case by simp
next
  case (Cons now nows)
  let ?store' = "store(configKey sid \<mapsto> \<lparr>providers = ps,
      currentIndex = Suc i mod length ps, lastFailureTime = t, failureCount = 0\<rparr>)"
  have step: "getNextProvider now ps sid store = (Inr (ps ! i), ?store')"
    using Cons.prems by (rule getNextProvider_healthy)
  have lt: "Suc i mod length ps < length ps"
    using Cons.prems(1) by (intro mod_less_divisor) linarith
  have rest: "selectRepeatedly nows ps sid ?store' =
     map (\<lambda>k. Inr (ps ! ((Suc i mod length ps + k) mod length ps))) [0..<length nows]"
    by (rule Cons.IH[OF Cons.prems(1) lt]) simp
  have idx: "(Suc i mod length ps + k) mod length ps = (i + Suc k) mod length ps" for k
    by (metis add_Suc add_Suc_right mod_add_left_eq)
  have rest': "selectRepeatedly nows ps sid ?store' =
     map ((\<lambda>k. Inr (ps ! ((i + k) mod length ps))) \<circ> Suc) [0..<length nows]"
    unfolding rest comp_def idx ..
  have shift: "[0..<length (now # nows)] = 0 # map Suc [0..<length nows]"
    by (simp add: upt_conv_Cons map_Suc_upt del: upt_Suc)
  have "selectRepeatedly (now # nows) ps sid store =
      Inr (ps ! i) # selectRepeatedly nows ps sid ?store'"
    by (simp add: step)
  also have "\<dots> = map (\<lambda>k. Inr (ps ! ((i + k) mod length ps))) (0 # map Suc [0..<length nows])"
    unfolding rest' using Cons.prems(2) by simp
  finally show ?case unfolding shift .
qed

text \<open>
  Claim C1.  For a candidate list of length at least 2 and a scope with no record,
  sequential \<open>getNextProvider\<close> calls (no failure recorded between them) return the
  candidates in list order, cyclically: call number \<open>k\<close> (from 0) returns candidate
  \<open>k mod length\<close>, so the first \<open>length\<close> calls return the whole list before any
  candidate is returned again.
\<close>

theorem C1_round_robin:
  assumes "2 \<le> length ps" and "store (configKey sid) = None"
  shows "selectRepeatedly nows ps sid store =
           map (\<lambda>k. Inr (ps ! (k mod length ps))) [0..<length nows]
       \<and> (length ps \<le> length nows \<longrightarrow>
            take (length ps) (selectRepeatedly nows ps sid store) = map Inr ps)"
proof -
  have all: "selectRepeatedly nows ps sid store =
           map (\<lambda>k. Inr (ps ! (k mod length ps))) [0..<length nows]"
  proof (cases nows)
    case Nil
    then show ?thesis by simp
  next
    case (Cons now rest)
    let ?store' = "store(configKey sid \<mapsto> \<lparr>providers = ps, currentIndex = Suc 0 mod length ps,
        lastFailureTime = 0, failureCount = 0\<rparr>)"
    have step: "getNextProvider now ps sid store = (Inr (ps ! 0), ?store')"
      using assms by (rule getNextProvider_first)
    have one: "Suc 0 mod length ps = 1" using assms(1) by simp
    have lt: "1 < length ps" using assms(1) by simp
    have rest: "selectRepeatedly rest ps sid ?store' =
       map (\<lambda>k. Inr (ps ! ((1 + k) mod length ps))) [0..<length rest]"
    proof (rule selectRepeatedly_healthy[OF assms(1) lt])
      show "?store' (configKey sid) = Some \<lparr>providers = ps, currentIndex = 1,
          lastFailureTime = 0, failureCount = 0\<rparr>"
        using one by simp
    qed
    have rest': "selectRepeatedly rest ps sid ?store' =
       map ((\<lambda>k. Inr (ps ! (k mod length ps))) \<circ> Suc) [0..<length rest]"
      unfolding rest comp_def by simp
    have shift: "[0..<length (now # rest)] = 0 # map Suc [0..<length rest]"
      by (simp add: upt_conv_Cons map_Suc_upt del: upt_Suc)
    have "selectRepeatedly nows ps sid store = Inr (ps ! 0) # selectRepeatedly rest ps sid ?store'"
      by (simp add: Cons step)
    also have "\<dots> = map (\<lambda>k. Inr (ps ! (k mod length ps))) (0 # map Suc [0..<length rest])"
      unfolding rest' by simp
    finally show ?thesis unfolding Cons shift .
  qed
  have cycle: "take (length ps) (selectRepeatedly nows ps sid store) = map Inr ps"
    if le: "length ps \<le> length nows"
  proof -
    have "take (length ps) (selectRepeatedly nows ps sid store) =
        map (\<lambda>k. Inr (ps ! (k mod length ps))) [0..<length ps]"
      unfolding all using le by (simp add: take_map min_def)
    also have "\<dots> = map (\<lambda>k. Inr (ps ! k)) [0..<length ps]"
      by (rule map_cong) auto
    also have "\<dots> = map Inr (map (\<lambda>k. ps ! k) [0..<length ps])"
      by simp
    also have "\<dots> = map Inr ps"
      by (simp only: map_nth)
    finally show ?thesis .
  qed
  from all cycle show ?thesis by blast
qed

text \<open>
  The scenario of the specification: candidates \<open>a, b, c\<close> on scope \<open>s1\<close>; four calls
  return \<open>a, b, c, a\<close>.
\<close>

theorem C1_round_robin_witness:
  "selectRepeatedly [10, 20, 30, 40] [''a'', ''b'', ''c''] (Some ''s1'') Map.empty =
     [Inr ''a'', Inr ''b'', Inr ''c'', Inr ''a'']
   \<and> take 3 (selectRepeatedly [10, 20, 30, 40] [''a'', ''b'', ''c''] (Some ''s1'') Map.empty) =
     [Inr ''a'', Inr ''b'', Inr ''c'']"
  using C1_round_robin [of "[''a'', ''b'', ''c'']" Map.empty "Some ''s1''" "[10, 20, 30, 40]"]
  by (simp add: upt_conv_Cons del: upt_Suc)

text \<open>
  Claim C2.  A candidate of a record is in the available subset computed at time \<open>now\<close>
  if and only if the record's \<open>failureCount\<close> is 0, or more than 30000 ms have passed
  since \<open>lastFailureTime\<close>, or \<open>failureCount\<close> is below 3; it is unavailable exactly when
  \<open>failureCount\<close> is at least 3 and at most 30000 ms have passed.
\<close>

theorem C2_available_iff:
  assumes "provider \<in> set (providers config)"
  shows "(provider \<in> set (getAvailableProviders now config)) =
           (failureCount config = 0 \<or> now - lastFailureTime config > 30000 \<or> failureCount config < 3)
       \<and> (provider \<notin> set (getAvailableProviders now config)) =
           (failureCount config \<ge> 3 \<and> now - lastFailureTime config \<le> 30000)"
  using assms by (auto simp: getAvailableProviders_def FAILURE_COOLDOWN_MS_def MAX_FAILURES_def)

text \<open>The boundary of the cooldown and of the failure threshold, on a record of two candidates.\<close>

theorem C2_available_iff_witness:
  "''b'' \<notin> set (getAvailableProviders 31000
       \<lparr>providers = [''a'', ''b''], currentIndex = 0, lastFailureTime = 1000, failureCount = 3\<rparr>)
   \<and> ''b'' \<in> set (getAvailableProviders 31001
       \<lparr>providers = [''a'', ''b''], currentIndex = 0, lastFailureTime = 1000, failureCount = 3\<rparr>)
   \<and> ''b'' \<in> set (getAvailableProviders 31000
       \<lparr>providers = [''a'', ''b''], currentIndex = 0, lastFailureTime = 1000, failureCount = 2\<rparr>)"
  using C2_available_iff [of "''b''"
      "\<lparr>providers = [''a'', ''b''], currentIndex = 0, lastFailureTime = 1000, failureCount = 3\<rparr>" 31000]
    C2_available_iff [of "''b''"
      "\<lparr>providers = [''a'', ''b''], currentIndex = 0, lastFailureTime = 1000, failureCount = 3\<rparr>" 31001]
    C2_available_iff [of "''b''"
      "\<lparr>providers = [''a'', ''b''], currentIndex = 0, lastFailureTime = 1000, failureCount = 2\<rparr>" 31000]
  by simp

text \<open>
  Claim C5.  For a one-element candidate list and any scope, \<open>getNextProvider\<close> returns
  the element and the store it was given: the result does not depend on the store or
  the clock, and no record is created or changed.
\<close>

theorem C5_single_candidate:
  "getNextProvider now [p] sid store = (Inr p, store)"
  by (simp add: getNextProvider_def)

text \<open>
  Claim C7.  \<open>recordFailure\<close> returns the store unchanged when the scope has no record
  or the error is not retryable.
\<close>

theorem C7_recordFailure_noop:
  assumes "store (configKey sid) = None \<or> \<not> isRetryableError err"
  shows "recordFailure now provider sid err store = store"
  using assms by (auto simp: recordFailure_def split: option.splits)

text \<open>
  A 404 and an absent error on a scope that has a record, and a retryable 503 on a scope
  that has none: the store is the same after each call.
\<close>

theorem C7_recordFailure_noop_witness:
  "recordFailure 5000 ''a'' (Some ''s1'')
      (Some \<lparr>err_status = Some 404, err_response_status = None, err_code = None,
             err_message = Some ''Not Found''\<rparr>)
      [''session_s1'' \<mapsto> \<lparr>providers = [''a'', ''b''], currentIndex = 1, lastFailureTime = 0,
                            failureCount = 0\<rparr>]
    = [''session_s1'' \<mapsto> \<lparr>providers = [''a'', ''b''], currentIndex = 1, lastFailureTime = 0,
                            failureCount = 0\<rparr>]
   \<and> recordFailure 5000 ''a'' (Some ''s1'') None
      [''session_s1'' \<mapsto> \<lparr>providers = [''a'', ''b''], currentIndex = 1, lastFailureTime = 0,
                            failureCount = 0\<rparr>]
    = [''session_s1'' \<mapsto> \<lparr>providers = [''a'', ''b''], currentIndex = 1, lastFailureTime = 0,
                            failureCount = 0\<rparr>]
   \<and> recordFailure 5000 ''a'' None
      (Some \<lparr>err_status = Some 503, err_response_status = None, err_code = None,
             err_message = None\<rparr>)
      [''session_s1'' \<mapsto> \<lparr>providers = [''a'', ''b''], currentIndex = 1, lastFailureTime = 0,
                            failureCount = 0\<rparr>]
    = [''session_s1'' \<mapsto> \<lparr>providers = [''a'', ''b''], currentIndex = 1, lastFailureTime = 0,
                            failureCount = 0\<rparr>]"
proof -
  let ?st = "[''session_s1'' \<mapsto> \<lparr>providers = [''a'', ''b''], currentIndex = 1,
      lastFailureTime = 0, failureCount = 0\<rparr>]"
  let ?e404 = "Some \<lparr>err_status = Some 404, err_response_status = None, err_code = None,
             err_message = Some ''Not Found''\<rparr>"
  have n404: "\<not> isRetryableError ?e404"
    by (simp add: isRetryableError_def statusRetryable_def retryableStatusCodes_def
        messageIncludes_def messageLowerIncludes_def toLowerCase_def lower_char_def)
  have nNone: "\<not> isRetryableError None"
    by (simp add: isRetryableError_def)
  have absent: "?st (configKey None) = None"
    by (simp add: configKey_def)
  show ?thesis
    using C7_recordFailure_noop [of ?st "Some ''s1''" ?e404 5000 "''a''"]
      C7_recordFailure_noop [of ?st "Some ''s1''" None 5000 "''a''"]
      C7_recordFailure_noop [of ?st None _ 5000 "''a''"]
      n404 nNone absent
    by blast
qed

text \<open>What \<open>recordFailure\<close> does on a retryable error for a scope that has a record.\<close>

lemma recordFailure_retryable:
  assumes "store (configKey sid) = Some config" and "isRetryableError err"
  shows "recordFailure now provider sid err store =
     store(configKey sid \<mapsto> config\<lparr>failureCount := failureCount config + 1, lastFailureTime := now\<rparr>)"
  using assms by (simp add: recordFailure_def)

text \<open>
  Claim C4 says that after three consecutive retryable failures, within the cooldown,
  the available subset excludes no candidate.  On the record that one selection and
  three failures with status 429 leave, one second after the last failure, the
  available subset is empty: both candidates are excluded.
\<close>

theorem C4_three_failures_counterexample:
  "recordFailure 3000 ''a'' (Some ''s1'')
      (Some \<lparr>err_status = Some 429, err_response_status = None, err_code = None, err_message = None\<rparr>)
     (recordFailure 2000 ''a'' (Some ''s1'')
      (Some \<lparr>err_status = Some 429, err_response_status = None, err_code = None, err_message = None\<rparr>)
     (recordFailure 1000 ''a'' (Some ''s1'')
      (Some \<lparr>err_status = Some 429, err_response_status = None, err_code = None, err_message = None\<rparr>)
     (snd (getNextProvider 0 [''a'', ''b''] (Some ''s1'') Map.empty)))) ''session_s1''
    = Some \<lparr>providers = [''a'', ''b''], currentIndex = 1, lastFailureTime = 3000, failureCount = 3\<rparr>
   \<and> getAvailableProviders 4000
        \<lparr>providers = [''a'', ''b''], currentIndex = 1, lastFailureTime = 3000, failureCount = 3\<rparr> = []"
  by (simp add: recordFailure_def getNextProvider_def getAvailableProviders_def configKey_def
      isRetryableError_def statusRetryable_def retryableStatusCodes_def Let_def
      FAILURE_COOLDOWN_MS_def MAX_FAILURES_def)

text \<open>
  Claim C4, as the code has it.  After three consecutive retryable failures on a scope
  that has a record, and while less than 30000 ms have passed since the last of them,
  the record still holds the same candidates, its \<open>failureCount\<close> has grown by 3, and
  the available subset computed for it is empty: every candidate is excluded.
\<close>

theorem C4_three_failures_exclude_all:
  assumes "store (configKey sid) = Some config"
    and "isRetryableError e1" and "isRetryableError e2" and "isRetryableError e3"
    and "now - t3 < 30000"
  shows "\<exists>config'.
      recordFailure t3 p3 sid e3 (recordFailure t2 p2 sid e2 (recordFailure t1 p1 sid e1 store))
        (configKey sid) = Some config'
      \<and> providers config' = providers config
      \<and> failureCount config' = failureCount config + 3
      \<and> getAvailableProviders now config' = []"
  using assms
  by (simp add: recordFailure_retryable getAvailableProviders_def FAILURE_COOLDOWN_MS_def
      MAX_FAILURES_def)

text \<open>Three retryable failures of three kinds (a timeout code, a nested 503, a 429).\<close>

theorem C4_three_failures_exclude_all_witness:
  "\<exists>config'.
      recordFailure 3000 ''a'' (Some ''s1'')
        (Some \<lparr>err_status = Some 429, err_response_status = None, err_code = None, err_message = None\<rparr>)
       (recordFailure 2000 ''b'' (Some ''s1'')
        (Some \<lparr>err_status = None, err_response_status = Some 503, err_code = None, err_message = None\<rparr>)
       (recordFailure 1000 ''a'' (Some ''s1'')
        (Some \<lparr>err_status = None, err_response_status = None, err_code = Some ''ETIMEDOUT'', err_message = None\<rparr>)
        [''session_s1'' \<mapsto> \<lparr>providers = [''a'', ''b''], currentIndex = 1, lastFailureTime = 0,
                               failureCount = 0\<rparr>]))
       ''session_s1'' = Some config'
      \<and> providers config' = [''a'', ''b'']
      \<and> failureCount config' = 3
      \<and> getAvailableProviders 32999 config' = []"
proof -
  let ?st = "[''session_s1'' \<mapsto> \<lparr>providers = [''a'', ''b''], currentIndex = 1,
      lastFailureTime = 0, failureCount = 0\<rparr>]"
  let ?e1 = "Some \<lparr>err_status = None, err_response_status = None, err_code = Some ''ETIMEDOUT'', err_message = None\<rparr>"
  let ?e2 = "Some \<lparr>err_status = None, err_response_status = Some 503, err_code = None, err_message = None\<rparr>"
  let ?e3 = "Some \<lparr>err_status = Some 429, err_response_status = None, err_code = None, err_message = None\<rparr>"
  have key: "configKey (Some ''s1'') = ''session_s1''"
    by (simp add: configKey_def)
  have rec: "?st (configKey (Some ''s1'')) = Some \<lparr>providers = [''a'', ''b''], currentIndex = 1,
      lastFailureTime = 0, failureCount = 0\<rparr>"
    by (simp add: key)
  have r1: "isRetryableError ?e1"
    by (simp add: isRetryableError_def statusRetryable_def)
  have r2: "isRetryableError ?e2"
    by (simp add: isRetryableError_def statusRetryable_def retryableStatusCodes_def)
  have r3: "isRetryableError ?e3"
    by (simp add: isRetryableError_def statusRetryable_def retryableStatusCodes_def)
  have t: "(32999::int) - 3000 < 30000" by simp
  show ?thesis
    using C4_three_failures_exclude_all [of ?st "Some ''s1''" _ ?e1 ?e2 ?e3 32999 3000
        "''a''" 2000 "''b''" 1000 "''a''"] rec r1 r2 r3 t
    by (simp add: key)
qed

text \<open>
  The key that the no-provider branch of \<open>getNextProvider\<close> deletes is never the key of
  the scope, and the call on a scope that has a record, branch by branch.
\<close>

lemma session_key_differs: "configKey (Some (configKey sid)) \<noteq> configKey sid"
  by (auto simp: configKey_def split: option.splits)

lemma getNextProvider_existing:
  assumes "store (configKey sid) = Some config" and "2 \<le> length provs"
  shows "getNextProvider now provs sid store =
     (if getAvailableProviders now config = []
      then (Inr (provs ! 0), store(configKey (Some (configKey sid)) := None))
      else (Inr (getAvailableProviders now config !
                  (currentIndex config mod length (getAvailableProviders now config))),
            store(configKey sid \<mapsto> config\<lparr>currentIndex :=
                  (currentIndex config + 1) mod length (getAvailableProviders now config)\<rparr>)))"
  using assms by (auto simp: getNextProvider_def Let_def resetFailoverConfig_def)

lemma getAvailableProviders_subset:
  "set (getAvailableProviders now config) \<subseteq> set (providers config)"
  unfolding getAvailableProviders_def by (rule filter_is_subset)

text \<open>
  Claim C10.  On a scope that has a record, a \<open>getNextProvider\<close> call with any list of
  at least two candidates leaves the record's candidate list as it was (whatever record
  the scope has afterwards holds the same list); when the available subset is not
  empty the returned provider is a candidate of the stored list and the scope still has
  its record, with that list; when it is empty the returned provider is the first
  element of the list passed to the call.
\<close>

theorem C10_snapshot:
  assumes "store (configKey sid) = Some config" and "2 \<le> length provs"
  shows "(\<forall>config'. snd (getNextProvider now provs sid store) (configKey sid) = Some config'
            \<longrightarrow> providers config' = providers config)
       \<and> (getAvailableProviders now config \<noteq> [] \<longrightarrow>
            (\<exists>p. p \<in> set (providers config) \<and> fst (getNextProvider now provs sid store) = Inr p)
          \<and> (\<exists>config'. snd (getNextProvider now provs sid store) (configKey sid) = Some config'
                \<and> providers config' = providers config))
       \<and> (getAvailableProviders now config = [] \<longrightarrow>
            fst (getNextProvider now provs sid store) = Inr (provs ! 0))"
proof (cases "getAvailableProviders now config = []")
  case True
  then show ?thesis
    using assms by (simp add: getNextProvider_existing session_key_differs)
next
  case False
  let ?av = "getAvailableProviders now config"
  have "currentIndex config mod length ?av < length ?av"
    using False by simp
  then have "?av ! (currentIndex config mod length ?av) \<in> set ?av"
    by (rule nth_mem)
  then have "?av ! (currentIndex config mod length ?av) \<in> set (providers config)"
    using getAvailableProviders_subset by blast
  with False show ?thesis
    using assms by (simp add: getNextProvider_existing)
qed

text \<open>
  A record created for \<open>a, b\<close> and a call that passes \<open>x, y\<close>: the call returns \<open>a\<close>,
  which is not in the list passed, and the stored list is still \<open>a, b\<close>; with three
  failures inside the cooldown the call returns \<open>x\<close>.
\<close>

theorem C10_snapshot_witness:
  "fst (getNextProvider 5 [''x'', ''y''] None
      [''global'' \<mapsto> \<lparr>providers = [''a'', ''b''], currentIndex = 0, lastFailureTime = 0,
                        failureCount = 0\<rparr>]) = Inr ''a''
   \<and> ''a'' \<notin> set [''x'', ''y'']
   \<and> map_option providers (snd (getNextProvider 5 [''x'', ''y''] None
      [''global'' \<mapsto> \<lparr>providers = [''a'', ''b''], currentIndex = 0, lastFailureTime = 0,
                        failureCount = 0\<rparr>]) ''global'') = Some [''a'', ''b'']
   \<and> fst (getNextProvider 5 [''x'', ''y''] None
      [''global'' \<mapsto> \<lparr>providers = [''a'', ''b''], currentIndex = 0, lastFailureTime = 1,
                        failureCount = 3\<rparr>]) = Inr ''x''"
proof -
  let ?c = "\<lparr>providers = [''a'', ''b''], currentIndex = 0, lastFailureTime = 0, failureCount = 0\<rparr>"
  let ?d = "\<lparr>providers = [''a'', ''b''], currentIndex = 0, lastFailureTime = 1, failureCount = 3\<rparr>"
  have key: "configKey None = ''global''"
    by (simp add: configKey_def)
  have c: "[''global'' \<mapsto> ?c] (configKey None) = Some ?c"
    and d: "[''global'' \<mapsto> ?d] (configKey None) = Some ?d"
    by (simp_all add: key)
  have len: "2 \<le> length [''x'', ''y'']" by simp
  have avc: "getAvailableProviders 5 ?c = [''a'', ''b'']"
    by (simp add: getAvailableProviders_def)
  have avd: "getAvailableProviders 5 ?d = []"
    by (simp add: getAvailableProviders_def FAILURE_COOLDOWN_MS_def MAX_FAILURES_def)
  have one: "fst (getNextProvider 5 [''x'', ''y''] None [''global'' \<mapsto> ?c]) = Inr ''a''"
    by (simp add: getNextProvider_def Let_def key avc)
  have two: "snd (getNextProvider 5 [''x'', ''y''] None [''global'' \<mapsto> ?c]) ''global'' \<noteq> None"
    by (simp add: getNextProvider_def Let_def key avc)
  show ?thesis
    using C10_snapshot [of "[''global'' \<mapsto> ?c]" None ?c "[''x'', ''y'']" 5]
      C10_snapshot [of "[''global'' \<mapsto> ?d]" None ?d "[''x'', ''y'']" 5] c d len one two avd
    by (auto simp: key)
qed

text \<open>
  Claim C3 on the source.  With the record of scope \<open>s1\<close> at three failures and inside
  the cooldown, the available subset is empty and the call returns the first candidate
  passed, but the record of the scope is still in the store afterwards, unchanged:
  \<open>resetFailoverConfig\<close> is given the key \<open>session_s1\<close> where it expects the session id,
  and deletes the key \<open>session_session_s1\<close>, the record of another session when there is
  one.
\<close>

theorem C3_reset_keeps_record:
  "getAvailableProviders 4000
      \<lparr>providers = [''a'', ''b''], currentIndex = 1, lastFailureTime = 3000, failureCount = 3\<rparr> = []
   \<and> fst (getNextProvider 4000 [''a'', ''b''] (Some ''s1'')
        [''session_s1'' \<mapsto> \<lparr>providers = [''a'', ''b''], currentIndex = 1, lastFailureTime = 3000,
                               failureCount = 3\<rparr>]) = Inr ''a''
   \<and> snd (getNextProvider 4000 [''a'', ''b''] (Some ''s1'')
        [''session_s1'' \<mapsto> \<lparr>providers = [''a'', ''b''], currentIndex = 1, lastFailureTime = 3000,
                               failureCount = 3\<rparr>]) ''session_s1''
      = Some \<lparr>providers = [''a'', ''b''], currentIndex = 1, lastFailureTime = 3000, failureCount = 3\<rparr>
   \<and> snd (getNextProvider 4000 [''a'', ''b''] (Some ''s1'')
        [''session_s1'' \<mapsto> \<lparr>providers = [''a'', ''b''], currentIndex = 1, lastFailureTime = 3000,
                               failureCount = 3\<rparr>,
         ''session_session_s1'' \<mapsto> \<lparr>providers = [''c'', ''d''], currentIndex = 0,
                               lastFailureTime = 0, failureCount = 0\<rparr>]) ''session_session_s1''
      = None"
  by (simp add: getNextProvider_def getAvailableProviders_def configKey_def Let_def
      resetFailoverConfig_def FAILURE_COOLDOWN_MS_def MAX_FAILURES_def)

section \<open>Properties of the retryable-error predicate\<close>

text \<open>
  The predicate, condition by condition: \<open>timeout\<close> is searched in the message as
  written, the two rate-limit phrases in the lower-cased message.
\<close>

lemma statusRetryable_iff:
  "statusRetryable st = (\<exists>s. st = Some s \<and> s \<in> {429, 500, 502, 503, 504, 408, 524})"
  by (cases st) (auto simp: statusRetryable_def retryableStatusCodes_def)

lemma isRetryableError_iff:
  "isRetryableError error =
     (\<exists>e. error = Some e \<and>
        (statusRetryable (err_status e) \<or> statusRetryable (err_response_status e)
         \<or> err_code e \<in> {Some ''ECONNABORTED'', Some ''ETIMEDOUT'', Some ''ENOTFOUND'',
                           Some ''ECONNREFUSED'', Some ''ECONNRESET''}
         \<or> messageIncludes (err_message e) ''timeout''
         \<or> messageLowerIncludes (err_message e) ''rate limit''
         \<or> messageLowerIncludes (err_message e) ''too many requests''))"
  by (cases error) (auto simp: isRetryableError_def)

text \<open>
  Claim C6 on the source.  The message \<open>Headers Timeout Error\<close> contains \<open>timeout\<close> when
  case is ignored, and the error is classified as not retryable: \<open>timeout\<close> is searched
  in the message as written, while \<open>rate limit\<close> and \<open>too many requests\<close> are searched
  in the lower-cased message.
\<close>

theorem C6_timeout_case_sensitive:
  "isRetryableError (Some \<lparr>err_status = None, err_response_status = None,
        err_code = Some ''UND_ERR_HEADERS_TIMEOUT'', err_message = Some ''Headers Timeout Error''\<rparr>)
     = False
   \<and> includes_js (toLowerCase ''Headers Timeout Error'') ''timeout''
   \<and> isRetryableError (Some \<lparr>err_status = None, err_response_status = None,
        err_code = None, err_message = Some ''Rate Limit reached''\<rparr>)"
  by (simp add: isRetryableError_def statusRetryable_def messageIncludes_def
      messageLowerIncludes_def toLowerCase_def lower_char_def)

section \<open>Properties of the model selection policy and the router's try statement\<close>

text \<open>
  A string that contains the separator splits into at least two pieces, and the
  explicit override in terms of the first two pieces.
\<close>

lemma includes_js_breakOn:
  "includes_js s sep \<Longrightarrow> \<exists>before after. breakOn sep s = Some (before, after)"
  by (induction s) (auto split: option.splits)

lemma split_js_nonempty: "sep \<noteq> [] \<Longrightarrow> \<exists>x xs. split_js sep s = x # xs"
  by (subst split_js.simps) (auto split: option.splits)

lemma split_js_two:
  assumes "includes_js s sep" and "sep \<noteq> []"
  shows "\<exists>x y rest. split_js sep s = x # y # rest"
proof -
  from assms(1) obtain before after where b: "breakOn sep s = Some (before, after)"
    using includes_js_breakOn by blast
  from assms(2) obtain y rest where "split_js sep after = y # rest"
    using split_js_nonempty by blast
  with b assms(2) have "split_js sep s = before # y # rest"
    by (subst split_js.simps) simp
  then show ?thesis by blast
qed

lemma resolveExplicit_pieces:
  assumes "split_js '','' m = provider # model # rest"
  shows "resolveExplicit lower config m =
     (case find (\<lambda>p. lower (name p) = provider) (Providers config) of
        None \<Rightarrow> m
      | Some p \<Rightarrow>
          (case models p of
             None \<Rightarrow> m
           | Some ms \<Rightarrow>
               (case find (\<lambda>x. lower x = model) ms of
                  None \<Rightarrow> m
                | Some fm \<Rightarrow> if fm = [] then m else name p @ '','' @ fm)))"
  using assms by (simp add: resolveExplicit_def nth_js_def Let_def split: option.splits)

text \<open>
  Claim C8, as the code has it.  For a requested model string that contains a comma,
  \<open>getUseModel\<close> never throws and changes neither the request nor the store.  With
  \<open>provider\<close> and \<open>model\<close> the first two comma-separated pieces of the string, and
  \<open>lower\<close> the runtime's lower-casing: when the first configured provider whose
  lower-cased name is \<open>provider\<close> as written declares a model list, and the first of
  its models whose lower-cased spelling is \<open>model\<close> as written is not the empty string,
  the result is the pair \<open>name,model\<close> in the configured spellings; in every other
  case the result is the requested string unchanged.
\<close>

theorem C8_explicit_override:
  assumes "body_model req = Str m" and "includes_js m '',''"
  shows "\<exists>provider model rest r.
      split_js '','' m = provider # model # rest
    \<and> getUseModel lower now req tokenCount config lastUsage store = (Inr r, req, store)
    \<and> (\<forall>p ms fm. find (\<lambda>p. lower (name p) = provider) (Providers config) = Some p
            \<and> models p = Some ms
            \<and> find (\<lambda>x. lower x = model) ms = Some fm
            \<and> fm \<noteq> []
          \<longrightarrow> r = name p @ '','' @ fm)
    \<and> ((\<nexists>p ms fm. find (\<lambda>p. lower (name p) = provider) (Providers config) = Some p
            \<and> models p = Some ms
            \<and> find (\<lambda>x. lower x = model) ms = Some fm
            \<and> fm \<noteq> [])
          \<longrightarrow> r = m)"
proof -
  from assms(2) obtain provider model rest
    where pieces: "split_js '','' m = provider # model # rest"
    using split_js_two [of m "'',''"] by auto
  let ?r = "resolveExplicit lower config m"
  have run: "getUseModel lower now req tokenCount config lastUsage store = (Inr ?r, req, store)"
    using assms by (simp add: getUseModel_def)
  note r = resolveExplicit_pieces [OF pieces, of lower config]
  have found: "?r = name p @ '','' @ fm"
    if "find (\<lambda>p. lower (name p) = provider) (Providers config) = Some p"
      and "models p = Some ms" and "find (\<lambda>x. lower x = model) ms = Some fm"
      and "fm \<noteq> []" for p ms fm
    unfolding r using that by simp
  have raw: "?r = m"
    if "\<nexists>p ms fm. find (\<lambda>p. lower (name p) = provider) (Providers config) = Some p
            \<and> models p = Some ms
            \<and> find (\<lambda>x. lower x = model) ms = Some fm
            \<and> fm \<noteq> []"
    unfolding r using that by (auto split: option.splits)
  from pieces run found raw show ?thesis by blast
qed

text \<open>
  Claim C8 says that the lookup ignores the letter case of the request.  The request
  \<open>OpenRouter,anthropic/claude-3.5-sonnet\<close> names the configured provider \<open>openrouter\<close>
  and its model up to letter case, and is returned as written, not as the configured
  pair.
\<close>

theorem C8_explicit_override_counterexample:
  "toLowerCase ''OpenRouter'' = toLowerCase ''openrouter''
   \<and> fst (getUseModel toLowerCase 0
      \<lparr>body_model = Str ''OpenRouter,anthropic/claude-3.5-sonnet'', body_system = SysUndefined,
        body_thinking = False, body_tools = None, sessionId = None, selectedModel = None\<rparr>
      10
      \<lparr>Providers = [\<lparr>name = ''openrouter'', models = Some [''anthropic/claude-3.5-sonnet'']\<rparr>],
        Router = \<lparr>default_route = Str ''openrouter,anthropic/claude-3.5-sonnet'',
                  longContext = Undefined, background = Undefined, think = Undefined,
                  webSearch = Undefined, longContextThreshold = None\<rparr>,
        CUSTOM_ROUTER_PATH = None\<rparr>
      None Map.empty)
     = Inr ''OpenRouter,anthropic/claude-3.5-sonnet''
   \<and> ''OpenRouter,anthropic/claude-3.5-sonnet'' \<noteq> ''openrouter,anthropic/claude-3.5-sonnet''"
  by (simp add: getUseModel_def resolveExplicit_def split_js.simps nth_js_def toLowerCase_def
      lower_char_def Let_def)

text \<open>
  A lower-case request against a configuration spelled with capitals resolves to the
  configured spellings; a request whose model piece is empty, against a provider that
  declares the empty model, is returned unchanged.
\<close>

theorem C8_explicit_override_witness:
  "fst (getUseModel toLowerCase 0
      \<lparr>body_model = Str ''openrouter,anthropic/claude-3.5-sonnet'', body_system = SysUndefined,
        body_thinking = False, body_tools = None, sessionId = None, selectedModel = None\<rparr>
      10
      \<lparr>Providers = [\<lparr>name = ''OpenRouter'', models = Some [''Anthropic/Claude-3.5-Sonnet'']\<rparr>],
        Router = \<lparr>default_route = Str ''openrouter,anthropic/claude-3.5-sonnet'',
                  longContext = Undefined, background = Undefined, think = Undefined,
                  webSearch = Undefined, longContextThreshold = None\<rparr>,
        CUSTOM_ROUTER_PATH = None\<rparr>
      None Map.empty)
     = Inr ''OpenRouter,Anthropic/Claude-3.5-Sonnet''
   \<and> fst (getUseModel toLowerCase 0
      \<lparr>body_model = Str ''p,'', body_system = SysUndefined,
        body_thinking = False, body_tools = None, sessionId = None, selectedModel = None\<rparr>
      10
      \<lparr>Providers = [\<lparr>name = ''P'', models = Some ['''']\<rparr>],
        Router = \<lparr>default_route = Str ''openrouter,anthropic/claude-3.5-sonnet'',
                  longContext = Undefined, background = Undefined, think = Undefined,
                  webSearch = Undefined, longContextThreshold = None\<rparr>,
        CUSTOM_ROUTER_PATH = None\<rparr>
      None Map.empty)
     = Inr ''p,''"
proof -
  let ?req = "\<lparr>body_model = Str ''openrouter,anthropic/claude-3.5-sonnet'', body_system = SysUndefined,
        body_thinking = False, body_tools = None, sessionId = None, selectedModel = None\<rparr>"
  let ?cfg = "\<lparr>Providers = [\<lparr>name = ''OpenRouter'', models = Some [''Anthropic/Claude-3.5-Sonnet'']\<rparr>],
        Router = \<lparr>default_route = Str ''openrouter,anthropic/claude-3.5-sonnet'',
                  longContext = Undefined, background = Undefined, think = Undefined,
                  webSearch = Undefined, longContextThreshold = None\<rparr>,
        CUSTOM_ROUTER_PATH = None\<rparr>"
  let ?req2 = "\<lparr>body_model = Str ''p,'', body_system = SysUndefined,
        body_thinking = False, body_tools = None, sessionId = None, selectedModel = None\<rparr>"
  let ?cfg2 = "\<lparr>Providers = [\<lparr>name = ''P'', models = Some ['''']\<rparr>],
        Router = \<lparr>default_route = Str ''openrouter,anthropic/claude-3.5-sonnet'',
                  longContext = Undefined, background = Undefined, think = Undefined,
                  webSearch = Undefined, longContextThreshold = None\<rparr>,
        CUSTOM_ROUTER_PATH = None\<rparr>"
  have m: "body_model ?req = Str ''openrouter,anthropic/claude-3.5-sonnet''" by simp
  have inc: "includes_js ''openrouter,anthropic/claude-3.5-sonnet'' '',''" by simp
  have sp: "split_js '','' ''openrouter,anthropic/claude-3.5-sonnet'' =
      [''openrouter'', ''anthropic/claude-3.5-sonnet'']"
    by (simp add: split_js.simps)
  have f1: "find (\<lambda>p. toLowerCase (name p) = ''openrouter'') (Providers ?cfg) =
      Some \<lparr>name = ''OpenRouter'', models = Some [''Anthropic/Claude-3.5-Sonnet'']\<rparr>"
    by (simp add: toLowerCase_def lower_char_def)
  have f2: "find (\<lambda>x. toLowerCase x = ''anthropic/claude-3.5-sonnet'')
        [''Anthropic/Claude-3.5-Sonnet''] = Some ''Anthropic/Claude-3.5-Sonnet''"
    by (simp add: toLowerCase_def lower_char_def)
  from C8_explicit_override [OF m inc, of toLowerCase 0 10 ?cfg None Map.empty] sp f1 f2
  have one: "fst (getUseModel toLowerCase 0 ?req 10 ?cfg None Map.empty)
      = Inr ''OpenRouter,Anthropic/Claude-3.5-Sonnet''"
    by auto
  have m2: "body_model ?req2 = Str ''p,''" by simp
  have inc2: "includes_js ''p,'' '',''" by simp
  have sp2: "split_js '','' ''p,'' = [''p'', '''']"
    by (simp add: split_js.simps)
  have g1: "find (\<lambda>p. toLowerCase (name p) = ''p'') (Providers ?cfg2) =
      Some \<lparr>name = ''P'', models = Some ['''']\<rparr>"
    by (simp add: toLowerCase_def lower_char_def)
  have g2: "find (\<lambda>x. toLowerCase x = []) [''''] = Some ''''"
    by (simp add: toLowerCase_def)
  from C8_explicit_override [OF m2 inc2, of toLowerCase 0 10 ?cfg2 None Map.empty] sp2 g1 g2
  have two: "fst (getUseModel toLowerCase 0 ?req2 10 ?cfg2 None Map.empty) = Inr ''p,''"
    by auto
  from one two show ?thesis by simp
qed

text \<open>
  \<open>getNextProvider\<close> returns a provider for every non-empty list, so resolving a
  router configuration throws exactly when it is absent, the empty string or the empty
  list.
\<close>

lemma getNextProvider_returns:
  "provs \<noteq> [] \<Longrightarrow> \<exists>p. fst (getNextProvider now provs sid store) = Inr p"
  by (simp add: getNextProvider_def Let_def)

lemma getModelFromConfig_throws:
  assumes "getModelFromConfig now d sid store = (Inl e, store')"
  shows "d = Undefined \<or> d = Str [] \<or> d = Arr []"
proof (cases d)
  case Undefined
  then show ?thesis by simp
next
  case (Str s)
  with assms show ?thesis by (auto split: if_splits)
next
  case (Arr ps)
  show ?thesis
  proof (cases "ps = []")
    case True
    with Arr show ?thesis by simp
  next
    case False
    then obtain p where "fst (getNextProvider now ps sid store) = Inr p"
      using getNextProvider_returns by blast
    with assms Arr False show ?thesis by simp
  qed
qed

lemma getModelFromConfig_returns:
  assumes "(\<exists>s. d = Str s \<and> s \<noteq> []) \<or> (\<exists>ps. d = Arr ps \<and> ps \<noteq> [])"
  shows "\<exists>m store'. getModelFromConfig now d sid store = (Inr m, store')"
proof -
  obtain r store' where res: "getModelFromConfig now d sid store = (r, store')"
    by (cases "getModelFromConfig now d sid store") auto
  show ?thesis
  proof (cases r)
    case (Inl e)
    with res have "d = Undefined \<or> d = Str [] \<or> d = Arr []"
      using getModelFromConfig_throws by blast
    with assms show ?thesis by auto
  next
    case (Inr m)
    with res show ?thesis by blast
  qed
qed

text \<open>
  Claim C9 says that the fallback of \<open>router\<close> always assigns some model value to the
  request.  With no default configuration, or with an empty default list, a plain
  request that no rule matches makes the default rule throw inside the \<^verbatim>\<open>try\<close>,
  resolving the default throws again in the \<^verbatim>\<open>catch\<close>, and the last resort assigns
  the default itself: the request's model is \<^verbatim>\<open>undefined\<close>, or the empty list.
\<close>

theorem C9_router_counterexample:
  "map_sum id (\<lambda>(req, store). body_model req)
     (routerTryCatch
       \<lparr>env_now = 0, env_tokenCount = Inr 10, env_customRouter = CustomReturns None,
         env_lastUsage = None, env_toLowerCase = toLowerCase\<rparr>
       \<lparr>Providers = [],
         Router = \<lparr>default_route = Undefined,
                   longContext = Undefined, background = Undefined, think = Undefined,
                   webSearch = Undefined, longContextThreshold = None\<rparr>,
         CUSTOM_ROUTER_PATH = None\<rparr>
       \<lparr>body_model = Str ''claude-sonnet-4'', body_system = SysUndefined,
         body_thinking = False, body_tools = None, sessionId = None, selectedModel = None\<rparr>
       Map.empty)
     = Inr Undefined
   \<and> map_sum id (\<lambda>(req, store). body_model req)
     (routerTryCatch
       \<lparr>env_now = 0, env_tokenCount = Inr 10, env_customRouter = CustomReturns None,
         env_lastUsage = None, env_toLowerCase = toLowerCase\<rparr>
       \<lparr>Providers = [],
         Router = \<lparr>default_route = Arr [],
                   longContext = Undefined, background = Undefined, think = Undefined,
                   webSearch = Undefined, longContextThreshold = None\<rparr>,
         CUSTOM_ROUTER_PATH = None\<rparr>
       \<lparr>body_model = Str ''claude-sonnet-4'', body_system = SysUndefined,
         body_thinking = False, body_tools = None, sessionId = None, selectedModel = None\<rparr>
       Map.empty)
     = Inr (Arr [])"
  by (simp add: routerTryCatch_def routerTry_def routerCatch_def getUseModel_def
      heuristicChain_def subagentModel_def resolveFor_def Let_def)

text \<open>
  Claim C9, as the code has it.  The \<^verbatim>\<open>try\<close> statement of \<open>router\<close> never lets an
  exception out.  When its body yields a model, that model is assigned to the request.
  When its body throws, the default configuration is resolved directly and the result
  assigned; that resolution throws only when the default is absent, the empty string or
  the empty list, and then the default value itself is assigned (the value the source
  describes as the first element of a non-empty list, else the default).  So when the
  body throws and the default is a non-empty string or a non-empty list, the request is
  assigned a string.
\<close>

theorem C9_router_fallback:
  "\<exists>req'' store''. routerTryCatch env config req store0 = Inr (req'', store'')
     \<and> (\<forall>model req' store. routerTry env config req store0 = (Inr model, req', store)
            \<longrightarrow> body_model req'' = Str model)
     \<and> (\<forall>e req' store. routerTry env config req store0 = (Inl e, req', store) \<longrightarrow>
           (\<forall>m store'. getModelFromConfig (env_now env) (default_route (Router config))
                           (sessionId req') store = (Inr m, store')
                 \<longrightarrow> body_model req'' = Str m)
         \<and> (\<forall>e' store'. getModelFromConfig (env_now env) (default_route (Router config))
                           (sessionId req') store = (Inl e', store')
                 \<longrightarrow> body_model req'' =
                       (case default_route (Router config) of
                          Arr (x # xs) \<Rightarrow> Str x
                        | d \<Rightarrow> d)
                   \<and> body_model req'' = default_route (Router config)
                   \<and> (default_route (Router config) = Undefined
                        \<or> default_route (Router config) = Str []
                        \<or> default_route (Router config) = Arr []))
         \<and> ((\<exists>s. default_route (Router config) = Str s \<and> s \<noteq> [])
              \<or> (\<exists>ps. default_route (Router config) = Arr ps \<and> ps \<noteq> [])
             \<longrightarrow> (\<exists>m. body_model req'' = Str m)))"
proof -
  let ?d = "default_route (Router config)"
  obtain r req' store where tr: "routerTry env config req store0 = (r, req', store)"
    by (cases "routerTry env config req store0") auto
  show ?thesis
  proof (cases r)
    case (Inr model)
    with tr show ?thesis by (simp add: routerTryCatch_def)
  next
    case (Inl e)
    obtain r2 store' where res:
      "getModelFromConfig (env_now env) ?d (sessionId req') store = (r2, store')"
      by (cases "getModelFromConfig (env_now env) ?d (sessionId req') store") auto
    show ?thesis
    proof (cases r2)
      case (Inr m)
      with Inl tr res show ?thesis by (simp add: routerTryCatch_def routerCatch_def)
    next
      case (Inl e')
      with res have empty: "?d = Undefined \<or> ?d = Str [] \<or> ?d = Arr []"
        using getModelFromConfig_throws by blast
      with \<open>r = Inl e\<close> \<open>r2 = Inl e'\<close> tr res show ?thesis
        by (auto simp: routerTryCatch_def routerCatch_def)
    qed
  qed
qed

text \<open>
  A tokenizer exception with a default list of two candidates: the first candidate is
  assigned.  A custom router that throws \<^verbatim>\<open>undefined\<close>, with a default string: the
  default string is assigned.
\<close>

theorem C9_router_fallback_witness:
  "map_sum id (\<lambda>(req, store). body_model req)
     (routerTryCatch
       \<lparr>env_now = 0, env_tokenCount = Inl (External ''tokenizer''),
         env_customRouter = CustomReturns None, env_lastUsage = None,
         env_toLowerCase = toLowerCase\<rparr>
       \<lparr>Providers = [],
         Router = \<lparr>default_route = Arr [''p1,m1'', ''p2,m2''],
                   longContext = Undefined, background = Undefined, think = Undefined,
                   webSearch = Undefined, longContextThreshold = None\<rparr>,
         CUSTOM_ROUTER_PATH = None\<rparr>
       \<lparr>body_model = Str ''claude-sonnet-4'', body_system = SysUndefined,
         body_thinking = False, body_tools = None, sessionId = Some ''s1'',
         selectedModel = None\<rparr>
       Map.empty)
     = Inr (Str ''p1,m1'')
   \<and> map_sum id (\<lambda>(req, store). body_model req)
     (routerTryCatch
       \<lparr>env_now = 0, env_tokenCount = Inr 10, env_customRouter = CustomThrowsNullish,
         env_lastUsage = None, env_toLowerCase = toLowerCase\<rparr>
       \<lparr>Providers = [],
         Router = \<lparr>default_route = Str ''p1,m1'',
                   longContext = Undefined, background = Undefined, think = Undefined,
                   webSearch = Undefined, longContextThreshold = None\<rparr>,
         CUSTOM_ROUTER_PATH = Some ''/custom-router.js''\<rparr>
       \<lparr>body_model = Str ''claude-sonnet-4'', body_system = SysUndefined,
         body_thinking = False, body_tools = None, sessionId = None, selectedModel = None\<rparr>
       Map.empty)
     = Inr (Str ''p1,m1'')"
proof -
  let ?E1 = "\<lparr>env_now = 0, env_tokenCount = Inl (External ''tokenizer''),
         env_customRouter = CustomReturns None, env_lastUsage = None,
         env_toLowerCase = toLowerCase\<rparr>"
  let ?C1 = "\<lparr>Providers = [],
         Router = \<lparr>default_route = Arr [''p1,m1'', ''p2,m2''],
                   longContext = Undefined, background = Undefined, think = Undefined,
                   webSearch = Undefined, longContextThreshold = None\<rparr>,
         CUSTOM_ROUTER_PATH = None\<rparr>"
  let ?R1 = "\<lparr>body_model = Str ''claude-sonnet-4'', body_system = SysUndefined,
         body_thinking = False, body_tools = None, sessionId = Some ''s1'',
         selectedModel = None\<rparr>"
  let ?E2 = "\<lparr>env_now = 0, env_tokenCount = Inr 10, env_customRouter = CustomThrowsNullish,
         env_lastUsage = None, env_toLowerCase = toLowerCase\<rparr>"
  let ?C2 = "\<lparr>Providers = [],
         Router = \<lparr>default_route = Str ''p1,m1'',
                   longContext = Undefined, background = Undefined, think = Undefined,
                   webSearch = Undefined, longContextThreshold = None\<rparr>,
         CUSTOM_ROUTER_PATH = Some ''/custom-router.js''\<rparr>"
  let ?R2 = "\<lparr>body_model = Str ''claude-sonnet-4'', body_system = SysUndefined,
         body_thinking = False, body_tools = None, sessionId = None, selectedModel = None\<rparr>"
  have t1: "routerTry ?E1 ?C1 ?R1 Map.empty = (Inl (External ''tokenizer''), ?R1, Map.empty)"
    by (simp add: routerTry_def)
  have g1: "fst (getModelFromConfig 0 (Arr [''p1,m1'', ''p2,m2'']) (Some ''s1'') Map.empty)
      = Inr ''p1,m1''"
    by (simp add: getNextProvider_def getAvailableProviders_def Let_def)
  have t2: "routerTry ?E2 ?C2 ?R2 Map.empty = (Inl TypeError, ?R2, Map.empty)"
    by (simp add: routerTry_def)
  have g2: "getModelFromConfig 0 (Str ''p1,m1'') None Map.empty = (Inr ''p1,m1'', Map.empty)"
    by simp
  from C9_router_fallback [of ?E1 ?C1 ?R1 Map.empty] t1 g1
  have one: "\<exists>req'' store''. routerTryCatch ?E1 ?C1 ?R1 Map.empty = Inr (req'', store'')
      \<and> body_model req'' = Str ''p1,m1''"
    by (cases "getModelFromConfig 0 (Arr [''p1,m1'', ''p2,m2'']) (Some ''s1'') Map.empty") auto
  from C9_router_fallback [of ?E2 ?C2 ?R2 Map.empty] t2 g2
  have two: "\<exists>req'' store''. routerTryCatch ?E2 ?C2 ?R2 Map.empty = Inr (req'', store'')
      \<and> body_model req'' = Str ''p1,m1''"
    by auto
  from one two show ?thesis by auto
qed

end
